theory Spec2Isabelle
  imports Main "HOL-Library.Sublist"
begin

section \<open>The RAG chatbot API client (chatClient.ts)\<close>

text \<open>
  A shallow embedding of \<^verbatim>\<open>src/book_frontend/src/plugins/rag-chatbot/api/chatClient.ts\<close>.
  The class \<^verbatim>\<open>ChatClient\<close> has four asynchronous methods; each builds a request, calls
  \<^verbatim>\<open>fetch\<close>, looks at the response and returns a value or throws. In the model
  \<^item> a thrown exception (a rejected promise) is the left injection of a sum, a returned
    value the right one;
  \<^item> the network is a function from the request to what \<^verbatim>\<open>fetch\<close> settles with, and
    the list of requests handed to \<^verbatim>\<open>fetch\<close> so far is passed through every method;
  \<^item> the argument of \<^verbatim>\<open>fetch\<close> is evaluated before \<^verbatim>\<open>fetch\<close> is called, so an
    exception of \<^verbatim>\<open>JSON.stringify\<close> ends the method with no request issued;
  \<^item> JavaScript values are the datatype \<open>jsval\<close>; the functions of the language and of the
    platform that the methods call (\<^verbatim>\<open>JSON.stringify\<close>, \<^verbatim>\<open>||\<close>, \<^verbatim>\<open>new Error\<close>,
    \<^verbatim>\<open>response.ok\<close>) are written out after ECMA-262 and the Fetch standard.
\<close>

subsection \<open>JavaScript values\<close>

text \<open>
  Data, as \<^verbatim>\<open>JSON.parse\<close> produces it and as the callers pass it. An object is the list
  of its own data properties in enumeration order (its keys are distinct). A string is
  the list of its code units, each below 256. Numbers are IEEE doubles in the source;
  their arithmetic is not part of this program, so the type of numbers is a parameter
  \<open>'n\<close> and the three operations on numbers that the language functions below need are
  handed in as a record. A BigInt is an integer of any size; \<^verbatim>\<open>JSON.parse\<close> never
  produces one, a caller can pass one, and \<^verbatim>\<open>JSON.stringify\<close> throws on it. The other
  values on which \<^verbatim>\<open>JSON.stringify\<close> throws (an object that contains itself, a getter
  or a \<^verbatim>\<open>toJSON\<close> that throws) are not trees of data and have no constructor here; the
  methods treat every exception of \<^verbatim>\<open>JSON.stringify\<close> alike.
\<close>

datatype 'n jsval =
    JUndefined
  | JNull
  | JBool bool
  | JNumber 'n
  | JBigInt int
  | JString string
  | JArray "'n jsval list"
  | JObject "(string \<times> 'n jsval) list"

record 'n number_ops =
  NumberToBoolean :: "'n \<Rightarrow> bool"   \<comment> \<open>false for \<open>+0\<close>, \<open>-0\<close> and \<open>NaN\<close>\<close>
  NumberToString :: "'n \<Rightarrow> string"   \<comment> \<open>\<^verbatim>\<open>Number::toString\<close>, radix 10\<close>
  NumberIsFinite :: "'n \<Rightarrow> bool"    \<comment> \<open>neither \<open>NaN\<close> nor an infinity\<close>

text \<open>The exceptions that occur: an \<^verbatim>\<open>Error\<close>, a \<^verbatim>\<open>TypeError\<close>, a \<^verbatim>\<open>SyntaxError\<close>, each
  with its message.\<close>

datatype js_error = Error string | TypeError string | SyntaxError string

fun message :: "js_error \<Rightarrow> string" where
  "message (Error m) = m"
| "message (TypeError m) = m"
| "message (SyntaxError m) = m"

text \<open>The decimal digits of an integer, with a minus sign when it is negative: this is
  \<^verbatim>\<open>BigInt::toString\<close> in radix 10.\<close>

definition hex_digit :: "nat \<Rightarrow> char" where
  "hex_digit d = ''0123456789abcdef'' ! (d mod 16)"

fun decimal :: "nat \<Rightarrow> string" where
  "decimal n =
     (if n < 10 then [hex_digit n] else decimal (n div 10) @ [hex_digit (n mod 10)])"

definition integer_to_string :: "int \<Rightarrow> string" where
  "integer_to_string i = (if i < 0 then ''-'' @ decimal (nat (- i)) else decimal (nat i))"

text \<open>The own property \<open>k\<close> of a value, if it is an object that has one.\<close>

fun own_property :: "'n jsval \<Rightarrow> string \<Rightarrow> 'n jsval option" where
  "own_property (JObject ps) k = map_of ps k"
| "own_property v k = None"

text \<open>
  The expression \<^verbatim>\<open>error.detail\<close>. Reading a property of \<^verbatim>\<open>undefined\<close> or \<^verbatim>\<open>null\<close> throws
  a TypeError (the message is V8's). No prototype has a property \<^verbatim>\<open>detail\<close>, and it is
  neither an index nor \<^verbatim>\<open>length\<close>, so on booleans, numbers, BigInts, strings and arrays, and on an
  object without that own property, the value is \<^verbatim>\<open>undefined\<close>.
\<close>

fun Get_detail :: "'n jsval \<Rightarrow> js_error + 'n jsval" where
  "Get_detail JUndefined =
     Inl (TypeError (''Cannot read properties of undefined (reading '' @ [CHR 0x27] @ ''detail'' @ [CHR 0x27] @ '')''))"
| "Get_detail JNull =
     Inl (TypeError (''Cannot read properties of null (reading '' @ [CHR 0x27] @ ''detail'' @ [CHR 0x27] @ '')''))"
| "Get_detail v = Inr (case own_property v ''detail'' of None \<Rightarrow> JUndefined | Some d \<Rightarrow> d)"

text \<open>\<^verbatim>\<open>ToBoolean\<close> (ECMA-262, 7.1.2): the falsy values are \<^verbatim>\<open>undefined\<close>, \<^verbatim>\<open>null\<close>,
  \<^verbatim>\<open>false\<close>, the zeros and \<open>NaN\<close>, the BigInt zero, and the empty string.\<close>

fun ToBoolean :: "'n number_ops \<Rightarrow> 'n jsval \<Rightarrow> bool" where
  "ToBoolean P JUndefined = False"
| "ToBoolean P JNull = False"
| "ToBoolean P (JBool b) = b"
| "ToBoolean P (JNumber n) = NumberToBoolean P n"
| "ToBoolean P (JBigInt i) = (i \<noteq> 0)"
| "ToBoolean P (JString s) = (s \<noteq> [])"
| "ToBoolean P (JArray vs) = True"
| "ToBoolean P (JObject ps) = True"

text \<open>The expression \<^verbatim>\<open>a || b\<close>, both operands already evaluated (the right operand of
  the source is a string literal).\<close>

definition logical_or :: "'n number_ops \<Rightarrow> 'n jsval \<Rightarrow> 'n jsval \<Rightarrow> 'n jsval" where
  "logical_or P a b = (if ToBoolean P a then a else b)"

fun join :: "string \<Rightarrow> string list \<Rightarrow> string" where
  "join sep [] = []"
| "join sep [s] = s"
| "join sep (s # t # ts) = s @ sep @ join sep (t # ts)"

text \<open>
  \<^verbatim>\<open>ToString\<close> (ECMA-262, 7.1.17) on plain data. An array is converted by
  \<^verbatim>\<open>Array.prototype.join\<close>: the elements left to right, \<^verbatim>\<open>undefined\<close> and \<^verbatim>\<open>null\<close> as
  the empty string, separated by commas. An object is converted by
  \<^verbatim>\<open>OrdinaryToPrimitive\<close>: an own property \<^verbatim>\<open>toString\<close> of plain data is not callable and
  hides \<^verbatim>\<open>Object.prototype.toString\<close>, and \<^verbatim>\<open>valueOf\<close> gives no primitive, so the
  conversion throws a TypeError; otherwise the result is \<^verbatim>\<open>[object Object]\<close>.
\<close>

fun ToString :: "'n number_ops \<Rightarrow> 'n jsval \<Rightarrow> js_error + string"
and join_elements :: "'n number_ops \<Rightarrow> 'n jsval list \<Rightarrow> js_error + string list" where
  "ToString P JUndefined = Inr ''undefined''"
| "ToString P JNull = Inr ''null''"
| "ToString P (JBool b) = Inr (if b then ''true'' else ''false'')"
| "ToString P (JNumber n) = Inr (NumberToString P n)"
| "ToString P (JBigInt i) = Inr (integer_to_string i)"
| "ToString P (JString s) = Inr s"
| "ToString P (JArray vs) =
     (case join_elements P vs of Inl e \<Rightarrow> Inl e | Inr ss \<Rightarrow> Inr (join '','' ss))"
| "ToString P (JObject ps) =
     (case map_of ps ''toString'' of
        Some f \<Rightarrow> Inl (TypeError ''Cannot convert object to primitive value'')
      | None \<Rightarrow> Inr ''[object Object]'')"
| "join_elements P [] = Inr []"
| "join_elements P (v # vs) =
     (case (case v of JUndefined \<Rightarrow> Inr [] | JNull \<Rightarrow> Inr [] | _ \<Rightarrow> ToString P v) of
        Inl e \<Rightarrow> Inl e
      | Inr s \<Rightarrow> (case join_elements P vs of Inl e \<Rightarrow> Inl e | Inr ss \<Rightarrow> Inr (s # ss)))"

text \<open>\<^verbatim>\<open>new Error(v)\<close>: the message is \<^verbatim>\<open>ToString(v)\<close>, and is left at the prototype's
  empty string when \<open>v\<close> is \<^verbatim>\<open>undefined\<close>. The result is the exception that the
  statement \<^verbatim>\<open>throw new Error(v)\<close> ends with: the new error, or the TypeError of the
  conversion.\<close>

definition throw_new_Error :: "'n number_ops \<Rightarrow> 'n jsval \<Rightarrow> js_error" where
  "throw_new_Error P v =
     (case v of
        JUndefined \<Rightarrow> Error []
      | _ \<Rightarrow> (case ToString P v of Inl e \<Rightarrow> e | Inr m \<Rightarrow> Error m))"

subsection \<open>\<^verbatim>\<open>JSON.stringify\<close>\<close>

text \<open>\<^verbatim>\<open>QuoteJSONString\<close> (ECMA-262, 25.5.2.3) on code units below 256.\<close>

definition quote_char :: "char \<Rightarrow> string" where
  "quote_char c =
     (if c = CHR 0x08 then [CHR 0x5C, CHR ''b'']
      else if c = CHR 0x09 then [CHR 0x5C, CHR ''t'']
      else if c = CHR 0x0A then [CHR 0x5C, CHR ''n'']
      else if c = CHR 0x0C then [CHR 0x5C, CHR ''f'']
      else if c = CHR 0x0D then [CHR 0x5C, CHR ''r'']
      else if c = CHR 0x22 then [CHR 0x5C, CHR 0x22]
      else if c = CHR 0x5C then [CHR 0x5C, CHR 0x5C]
      else if (of_char c :: nat) < 32
        then [CHR 0x5C, CHR ''u'', CHR ''0'', CHR ''0'',
              hex_digit (of_char c div 16), hex_digit (of_char c mod 16)]
      else [c])"

definition QuoteJSONString :: "string \<Rightarrow> string" where
  "QuoteJSONString s = [CHR 0x22] @ concat (map quote_char s) @ [CHR 0x22]"

text \<open>
  \<^verbatim>\<open>SerializeJSONProperty\<close>, \<^verbatim>\<open>SerializeJSONArray\<close> and \<^verbatim>\<open>SerializeJSONObject\<close>
  (ECMA-262, 25.5.2) with no replacer and no indentation. \<open>Inr None\<close> is the result
  \<^verbatim>\<open>undefined\<close>, \<open>Inl\<close> an exception. In an array an \<^verbatim>\<open>undefined\<close> element is
  written \<^verbatim>\<open>null\<close>; in an object a property whose value is \<^verbatim>\<open>undefined\<close> is left
  out. A BigInt anywhere in the value throws a TypeError (the message is V8's); the
  elements and the properties are serialized in their order, so the first exception is
  the one thrown.
\<close>

fun SerializeJSONProperty :: "'n number_ops \<Rightarrow> 'n jsval \<Rightarrow> js_error + string option"
and SerializeJSONArray :: "'n number_ops \<Rightarrow> 'n jsval list \<Rightarrow> js_error + string list"
and SerializeJSONObject ::
  "'n number_ops \<Rightarrow> (string \<times> 'n jsval) list \<Rightarrow> js_error + string list" where
  "SerializeJSONProperty P JUndefined = Inr None"
| "SerializeJSONProperty P JNull = Inr (Some ''null'')"
| "SerializeJSONProperty P (JBool b) = Inr (Some (if b then ''true'' else ''false''))"
| "SerializeJSONProperty P (JNumber n) =
     Inr (Some (if NumberIsFinite P n then NumberToString P n else ''null''))"
| "SerializeJSONProperty P (JBigInt i) =
     Inl (TypeError ''Do not know how to serialize a BigInt'')"
| "SerializeJSONProperty P (JString s) = Inr (Some (QuoteJSONString s))"
| "SerializeJSONProperty P (JArray vs) =
     (case SerializeJSONArray P vs of
        Inl e \<Rightarrow> Inl e
      | Inr ss \<Rightarrow> Inr (Some (''['' @ join '','' ss @ '']'')))"
| "SerializeJSONProperty P (JObject ps) =
     (case SerializeJSONObject P ps of
        Inl e \<Rightarrow> Inl e
      | Inr ss \<Rightarrow> Inr (Some (''{'' @ join '','' ss @ ''}'')))"
| "SerializeJSONArray P [] = Inr []"
| "SerializeJSONArray P (v # vs) =
     (case SerializeJSONProperty P v of
        Inl e \<Rightarrow> Inl e
      | Inr r \<Rightarrow>
          (case SerializeJSONArray P vs of
             Inl e \<Rightarrow> Inl e
           | Inr ss \<Rightarrow> Inr ((case r of None \<Rightarrow> ''null'' | Some t \<Rightarrow> t) # ss)))"
| "SerializeJSONObject P [] = Inr []"
| "SerializeJSONObject P ((k, v) # ps) =
     (case SerializeJSONProperty P v of
        Inl e \<Rightarrow> Inl e
      | Inr r \<Rightarrow>
          (case SerializeJSONObject P ps of
             Inl e \<Rightarrow> Inl e
           | Inr ss \<Rightarrow>
               Inr (case r of None \<Rightarrow> ss | Some t \<Rightarrow> (QuoteJSONString k @ '':'' @ t) # ss)))"

text \<open>\<^verbatim>\<open>JSON.stringify(v)\<close>: the text, \<^verbatim>\<open>undefined\<close> (\<open>Inr None\<close>), or an
  exception.\<close>

definition JSON_stringify :: "'n number_ops \<Rightarrow> 'n jsval \<Rightarrow> js_error + string option" where
  "JSON_stringify P v = SerializeJSONProperty P v"

text \<open>The values without a BigInt: on them \<^verbatim>\<open>JSON.stringify\<close> does not throw.\<close>

fun plain :: "'n jsval \<Rightarrow> bool"
and plain_elements :: "'n jsval list \<Rightarrow> bool"
and plain_properties :: "(string \<times> 'n jsval) list \<Rightarrow> bool" where
  "plain (JBigInt i) = False"
| "plain (JArray vs) = plain_elements vs"
| "plain (JObject ps) = plain_properties ps"
| "plain v = True"
| "plain_elements [] = True"
| "plain_elements (v # vs) = (plain v \<and> plain_elements vs)"
| "plain_properties [] = True"
| "plain_properties ((k, v) # ps) = (plain v \<and> plain_properties ps)"

subsection \<open>Requests, responses and \<^verbatim>\<open>fetch\<close>\<close>

record request =
  url :: string
  http_method :: string   \<comment> \<open>the key \<^verbatim>\<open>method\<close> of the options of \<^verbatim>\<open>fetch\<close>\<close>
  headers :: "(string \<times> string) list"
  body :: "string option"   \<comment> \<open>\<open>None\<close>: no body\<close>

text \<open>
  What the methods read of a \<^verbatim>\<open>Response\<close>: \<^verbatim>\<open>status\<close>, \<^verbatim>\<open>statusText\<close> and the outcome of
  \<^verbatim>\<open>response.json()\<close>, which is the body parsed as JSON, or the exception of reading or
  parsing it (a SyntaxError when the body is not valid JSON).
\<close>

record 'n response =
  status :: nat
  statusText :: string
  json :: "js_error + 'n jsval"

text \<open>\<^verbatim>\<open>response.ok\<close>: by the Fetch standard, whether the status is in the range 200 to
  299.\<close>

definition ok :: "'n response \<Rightarrow> bool" where
  "ok r = (200 \<le> status r \<and> status r \<le> 299)"

text \<open>The network: what a call of \<^verbatim>\<open>fetch\<close> with a request settles with, a response of
  any status or the exception of a transport failure.\<close>

type_synonym 'n network = "request \<Rightarrow> js_error + 'n response"

text \<open>A call of \<^verbatim>\<open>fetch\<close> issues the request, which is recorded, and settles.\<close>

definition fetch :: "'n network \<Rightarrow> request \<Rightarrow> request list \<Rightarrow> (js_error + 'n response) \<times> request list" where
  "fetch net rq sent = (net rq, sent @ [rq])"

subsection \<open>The client\<close>

text \<open>\<^verbatim>\<open>API_BASE_URL\<close> (lines 6 to 8), as a function of \<^verbatim>\<open>process.env.NODE_ENV\<close>
  (\<open>None\<close> when it is not set).\<close>

definition API_BASE_URL :: "string option \<Rightarrow> string" where
  "API_BASE_URL NODE_ENV =
     (if NODE_ENV = Some ''production'' then ''https://rag-chatbot-api-lr57.onrender.com''
      else ''http://localhost:8000'')"

record ChatClient =
  baseUrl :: string

text \<open>The constructor (lines 48 to 50): the default applies when the argument is left
  out.\<close>

definition new_ChatClient :: "string option \<Rightarrow> string option \<Rightarrow> ChatClient" where
  "new_ChatClient NODE_ENV baseUrl_arg =
     \<lparr>baseUrl = (case baseUrl_arg of None \<Rightarrow> API_BASE_URL NODE_ENV | Some u \<Rightarrow> u)\<rparr>"

text \<open>The singleton (line 132).\<close>

definition chatClient :: "string option \<Rightarrow> ChatClient" where
  "chatClient NODE_ENV = new_ChatClient NODE_ENV None"

text \<open>
  The argument of \<^verbatim>\<open>fetch\<close> in a method is an object literal; its evaluation calls
  \<^verbatim>\<open>JSON.stringify\<close> and is over, with a request or with an exception, before
  \<^verbatim>\<open>fetch\<close> is called.
\<close>

text \<open>The argument of \<^verbatim>\<open>fetch\<close> in \<^verbatim>\<open>createSession\<close> (lines 56 to 62). The parameter
  \<^verbatim>\<open>userIdentifier?: string\<close> is a string or, when left out, \<^verbatim>\<open>undefined\<close>.\<close>

definition createSession_request ::
  "'n number_ops \<Rightarrow> ChatClient \<Rightarrow> string option \<Rightarrow> js_error + request" where
  "createSession_request P this userIdentifier =
     (case JSON_stringify P
        (JObject [(''user_identifier'',
           (case userIdentifier of None \<Rightarrow> JUndefined | Some s \<Rightarrow> JString s))]) of
        Inl e \<Rightarrow> Inl e
      | Inr serialized \<Rightarrow>
          Inr \<lparr>url = baseUrl this @ ''/api/session'',
               http_method = ''POST'',
               headers = [(''Content-Type'', ''application/json'')],
               body = serialized\<rparr>)"

text \<open>\<^verbatim>\<open>createSession\<close> (lines 55 to 69).\<close>

definition createSession ::
  "'n number_ops \<Rightarrow> ChatClient \<Rightarrow> 'n network \<Rightarrow> string option \<Rightarrow> request list
     \<Rightarrow> (js_error + 'n jsval) \<times> request list" where
  "createSession P this net userIdentifier sent =
     (case createSession_request P this userIdentifier of
        Inl e \<Rightarrow> (Inl e, sent)
      | Inr rq \<Rightarrow>
          (case fetch net rq sent of
             (Inl e, sent') \<Rightarrow> (Inl e, sent')
           | (Inr response, sent') \<Rightarrow>
               if \<not> ok response
               then (Inl (Error (''Failed to create session: '' @ statusText response)), sent')
               else (json response, sent')))"

text \<open>The argument of \<^verbatim>\<open>fetch\<close> in \<^verbatim>\<open>sendQuery\<close> (lines 75 to 81). The types of
  TypeScript are erased when the program runs: the request is the value the caller
  passes.\<close>

definition sendQuery_request ::
  "'n number_ops \<Rightarrow> ChatClient \<Rightarrow> 'n jsval \<Rightarrow> js_error + request" where
  "sendQuery_request P this request =
     (case JSON_stringify P request of
        Inl e \<Rightarrow> Inl e
      | Inr serialized \<Rightarrow>
          Inr \<lparr>url = baseUrl this @ ''/api/chat'',
               http_method = ''POST'',
               headers = [(''Content-Type'', ''application/json'')],
               body = serialized\<rparr>)"

text \<open>\<^verbatim>\<open>sendQuery\<close> (lines 74 to 95).\<close>

definition sendQuery ::
  "'n number_ops \<Rightarrow> ChatClient \<Rightarrow> 'n network \<Rightarrow> 'n jsval \<Rightarrow> request list
     \<Rightarrow> (js_error + 'n jsval) \<times> request list" where
  "sendQuery P this net request sent =
     (case sendQuery_request P this request of
        Inl e \<Rightarrow> (Inl e, sent)
      | Inr rq \<Rightarrow>
          (case fetch net rq sent of
             (Inl e, sent') \<Rightarrow> (Inl e, sent')
           | (Inr response, sent') \<Rightarrow>
               if \<not> ok response
               then
                 if status response = 429
                 then (Inl (Error ''Rate limit exceeded. Please wait a moment and try again.''),
                       sent')
                 else if status response = 400
                 then
                   (case json response of
                      Inl e \<Rightarrow> (Inl e, sent')
                    | Inr error \<Rightarrow>
                        (case Get_detail error of
                           Inl e \<Rightarrow> (Inl e, sent')
                         | Inr detail \<Rightarrow>
                             (Inl (throw_new_Error P
                                (logical_or P detail (JString ''Invalid request''))), sent')))
                 else (Inl (Error (''Failed to send query: '' @ statusText response)), sent')
               else (json response, sent')))"

text \<open>The argument of \<^verbatim>\<open>fetch\<close> in \<^verbatim>\<open>submitFeedback\<close> (lines 101 to 107).\<close>

definition submitFeedback_request ::
  "'n number_ops \<Rightarrow> ChatClient \<Rightarrow> 'n jsval \<Rightarrow> js_error + request" where
  "submitFeedback_request P this request =
     (case JSON_stringify P request of
        Inl e \<Rightarrow> Inl e
      | Inr serialized \<Rightarrow>
          Inr \<lparr>url = baseUrl this @ ''/api/feedback'',
               http_method = ''POST'',
               headers = [(''Content-Type'', ''application/json'')],
               body = serialized\<rparr>)"

text \<open>\<^verbatim>\<open>submitFeedback\<close> (lines 100 to 115). It returns nothing: the promise resolves
  with \<^verbatim>\<open>undefined\<close>, here the value of type \<open>unit\<close>.\<close>

definition submitFeedback ::
  "'n number_ops \<Rightarrow> ChatClient \<Rightarrow> 'n network \<Rightarrow> 'n jsval \<Rightarrow> request list
     \<Rightarrow> (js_error + unit) \<times> request list" where
  "submitFeedback P this net request sent =
     (case submitFeedback_request P this request of
        Inl e \<Rightarrow> (Inl e, sent)
      | Inr rq \<Rightarrow>
          (case fetch net rq sent of
             (Inl e, sent') \<Rightarrow> (Inl e, sent')
           | (Inr response, sent') \<Rightarrow>
               if \<not> ok response
               then
                 if status response = 409
                 then (Inl (Error ''Feedback already submitted for this response''), sent')
                 else (Inl (Error (''Failed to submit feedback: '' @ statusText response)),
                       sent')
               else (Inr (), sent')))"

text \<open>The argument of \<^verbatim>\<open>fetch\<close> in \<^verbatim>\<open>healthCheck\<close> (line 121): a URL alone, so the
  method is GET and there are neither headers nor a body.\<close>

definition healthCheck_request :: "ChatClient \<Rightarrow> request" where
  "healthCheck_request this =
     \<lparr>url = baseUrl this @ ''/api/health'', http_method = ''GET'', headers = [], body = None\<rparr>"

text \<open>\<^verbatim>\<open>healthCheck\<close> (lines 120 to 128).\<close>

definition healthCheck ::
  "ChatClient \<Rightarrow> 'n network \<Rightarrow> request list \<Rightarrow> (js_error + 'n jsval) \<times> request list" where
  "healthCheck this net sent =
     (case fetch net (healthCheck_request this) sent of
        (Inl e, sent') \<Rightarrow> (Inl e, sent')
      | (Inr response, sent') \<Rightarrow>
          if \<not> ok response
          then (Inl (Error ''API health check failed''), sent')
          else (json response, sent'))"

subsection \<open>The interfaces of the requests and of the source chunks\<close>

text \<open>
  The TypeScript interfaces (lines 10 to 43) describe the values that the callers pass
  and that the backend sends. An optional property of type \<^verbatim>\<open>string | null\<close> is left
  out, \<^verbatim>\<open>null\<close> or a string. The functions \<open>_value\<close> give the JavaScript object of a
  record, its properties in the order of the interface; a property left out is written
  as one whose value is \<^verbatim>\<open>undefined\<close>, which \<^verbatim>\<open>JSON.stringify\<close> treats alike.
\<close>

datatype optional_string = Omitted | Null | Text string

fun optional_string_value :: "optional_string \<Rightarrow> 'n jsval" where
  "optional_string_value Omitted = JUndefined"
| "optional_string_value Null = JNull"
| "optional_string_value (Text s) = JString s"

datatype mode = full_book | selection

fun mode_value :: "mode \<Rightarrow> 'n jsval" where
  "mode_value full_book = JString ''full_book''"
| "mode_value selection = JString ''selection''"

record ChatQueryRequest =
  query_text :: string
  mode :: mode
  selected_text :: optional_string
  session_id :: optional_string

definition ChatQueryRequest_value :: "ChatQueryRequest \<Rightarrow> 'n jsval" where
  "ChatQueryRequest_value q =
     JObject [(''query_text'', JString (query_text q)),
              (''mode'', mode_value (mode q)),
              (''selected_text'', optional_string_value (selected_text q)),
              (''session_id'', optional_string_value (session_id q))]"

datatype rating = positive | negative

fun rating_value :: "rating \<Rightarrow> 'n jsval" where
  "rating_value positive = JString ''positive''"
| "rating_value negative = JString ''negative''"

record FeedbackRequest =
  response_id :: string
  rating :: rating
  feedback_text :: optional_string

definition FeedbackRequest_value :: "FeedbackRequest \<Rightarrow> 'n jsval" where
  "FeedbackRequest_value f =
     JObject [(''response_id'', JString (response_id f)),
              (''rating'', rating_value (rating f)),
              (''feedback_text'', optional_string_value (feedback_text f))]"

record 'n SourceChunk =
  chunk_id :: string
  module_number :: 'n
  chapter_number :: 'n
  section_title :: string
  chunk_url :: string   \<comment> \<open>the property \<^verbatim>\<open>url\<close>\<close>
  score :: 'n

definition SourceChunk_value :: "'n SourceChunk \<Rightarrow> 'n jsval" where
  "SourceChunk_value c =
     JObject [(''chunk_id'', JString (chunk_id c)),
              (''module_number'', JNumber (module_number c)),
              (''chapter_number'', JNumber (chapter_number c)),
              (''section_title'', JString (section_title c)),
              (''url'', JString (chunk_url c)),
              (''score'', JNumber (score c))]"

subsection \<open>Concrete inputs\<close>

text \<open>
  An instance of the operations on numbers, for numbers that are integers of magnitude
  below \<open>2\<^sup>5\<^sup>3\<close>: these are exact doubles, all finite, printed in plain decimal, and
  zero is the only falsy one.
\<close>

definition integer_nonzero :: "int \<Rightarrow> bool" where
  "integer_nonzero i = (i \<noteq> 0)"

definition integer_finite :: "int \<Rightarrow> bool" where
  "integer_finite i = True"

definition integer_ops :: "int number_ops" where
  "integer_ops =
     \<lparr>NumberToBoolean = integer_nonzero,
      NumberToString = integer_to_string,
      NumberIsFinite = integer_finite\<rparr>"

text \<open>A network that answers every request with the response \<open>r\<close>, and one on which
  every request fails with the exception \<open>e\<close>.\<close>

definition answer :: "'n response \<Rightarrow> 'n network" where
  "answer r rq = Inr r"

definition unreachable :: "js_error \<Rightarrow> 'n network" where
  "unreachable e rq = Inl e"

definition local_client :: ChatClient where
  "local_client = chatClient None"

definition a_query :: "int jsval" where
  "a_query = ChatQueryRequest_value
     \<lparr>query_text = ''What is a humanoid robot?'', mode = full_book,
      selected_text = Omitted, session_id = Null\<rparr>"

definition a_feedback :: "int jsval" where
  "a_feedback = FeedbackRequest_value
     \<lparr>response_id = ''r-1'', rating = positive, feedback_text = Omitted\<rparr>"

text \<open>
  Requests that \<^verbatim>\<open>JSON.stringify\<close> cannot serialize: beside the properties of the
  interface they have one whose value is a BigInt. An object with more properties than
  an interface names is assignable to the interface, so these are values of the types
  \<^verbatim>\<open>ChatQueryRequest\<close> and \<^verbatim>\<open>FeedbackRequest\<close>.
\<close>

definition a_query_with_BigInt :: "int jsval" where
  "a_query_with_BigInt =
     JObject [(''query_text'', JString ''What is a humanoid robot?''),
              (''mode'', JString ''full_book''),
              (''client_time'', JBigInt 1762156800000)]"

definition a_feedback_with_BigInt :: "int jsval" where
  "a_feedback_with_BigInt =
     JObject [(''response_id'', JString ''r-1''),
              (''rating'', JString ''positive''),
              (''client_time'', JBigInt 1762156800000)]"

text \<open>Responses of the backend, for the examples.\<close>

definition internal_server_error :: "int response" where
  "internal_server_error =
     \<lparr>status = 500, statusText = ''Internal Server Error'',
      json = Inr (JObject [(''detail'', JString ''Internal Server Error'')])\<rparr>"

definition rate_limited :: "int response" where
  "rate_limited =
     \<lparr>status = 429, statusText = ''Too Many Requests'',
      json = Inr (JObject [(''detail'', JString ''slow down'')])\<rparr>"

definition bad_mode :: "int response" where
  "bad_mode =
     \<lparr>status = 400, statusText = ''Bad Request'',
      json = Inr (JObject [(''detail'', JString ''bad mode'')])\<rparr>"

definition no_detail :: "int response" where
  "no_detail =
     \<lparr>status = 400, statusText = ''Bad Request'',
      json = Inr (JObject [(''error'', JString ''bad mode'')])\<rparr>"

definition empty_detail :: "int response" where
  "empty_detail =
     \<lparr>status = 400, statusText = ''Bad Request'',
      json = Inr (JObject [(''detail'', JString [])])\<rparr>"

definition null_detail :: "int response" where
  "null_detail =
     \<lparr>status = 400, statusText = ''Bad Request'',
      json = Inr (JObject [(''detail'', JNull)])\<rparr>"

definition zero_detail :: "int response" where
  "zero_detail =
     \<lparr>status = 400, statusText = ''Bad Request'',
      json = Inr (JObject [(''detail'', JNumber 0)])\<rparr>"

definition null_body :: "int response" where
  "null_body = \<lparr>status = 400, statusText = ''Bad Request'', json = Inr JNull\<rparr>"

definition not_json :: "int response" where
  "not_json =
     \<lparr>status = 400, statusText = ''Bad Request'',
      json = Inl (SyntaxError ''Unexpected token < in JSON at position 0'')\<rparr>"

definition first_chunk :: "int SourceChunk" where
  "first_chunk =
     \<lparr>chunk_id = ''m2-c3-s1'', module_number = 2, chapter_number = 3,
      section_title = ''Actuators'', chunk_url = ''/docs/module-2/chapter-3'', score = 1\<rparr>"

definition second_chunk :: "int SourceChunk" where
  "second_chunk =
     \<lparr>chunk_id = ''m1-c1-s4'', module_number = 1, chapter_number = 1,
      section_title = ''Sensors'', chunk_url = ''/docs/module-1/chapter-1'', score = 0\<rparr>"

definition chat_body :: "int jsval" where
  "chat_body =
     JObject [(''response_id'', JString ''r-1''),
              (''response_text'', JString ''A humanoid robot is a robot shaped like a human.''),
              (''source_chunks'', JArray [SourceChunk_value first_chunk, SourceChunk_value second_chunk]),
              (''response_time_ms'', JNumber 840),
              (''session_id'', JString ''s-1'')]"

definition chat_answer :: "int response" where
  "chat_answer = \<lparr>status = 200, statusText = ''OK'', json = Inr chat_body\<rparr>"

definition duplicate_feedback :: "int response" where
  "duplicate_feedback =
     \<lparr>status = 409, statusText = ''Conflict'',
      json = Inr (JObject [(''detail'', JString ''duplicate'')])\<rparr>"

definition feedback_accepted :: "int response" where
  "feedback_accepted =
     \<lparr>status = 200, statusText = ''OK'', json = Inr (JObject [(''status'', JString ''ok'')])\<rparr>"

definition health_body :: "int jsval" where
  "health_body = JObject [(''status'', JString ''ok''), (''version'', JString ''1.2.3'')]"

definition health_answer :: "int response" where
  "health_answer = \<lparr>status = 200, statusText = ''OK'', json = Inr health_body\<rparr>"

subsection \<open>Predicates of the properties\<close>

text \<open>An outcome that is a failure whose message contains the status text of the
  response (\<open>sublist\<close>: a contiguous part, as \<^verbatim>\<open>String.prototype.includes\<close>).\<close>

definition fails_with_status_text :: "js_error + 'a \<Rightarrow> 'n response \<Rightarrow> bool" where
  "fails_with_status_text res r =
     (case res of Inl e \<Rightarrow> sublist (statusText r) (message e) | Inr v \<Rightarrow> False)"

text \<open>The property \<^verbatim>\<open>source_chunks\<close> of a value, when it is an array: its elements in
  their order.\<close>

definition source_chunks :: "'n jsval \<Rightarrow> 'n jsval list option" where
  "source_chunks v =
     (case own_property v ''source_chunks'' of Some (JArray cs) \<Rightarrow> Some cs | _ \<Rightarrow> None)"

section \<open>Properties\<close>

lemma sublist_after_prefix: "sublist t (p @ t)"
  using sublist_appendI [of t p "[]"] by simp

subsection \<open>When \<^verbatim>\<open>JSON.stringify\<close> throws\<close>

text \<open>It returns on every value without a BigInt, throws on every value with one, and
  throws nothing else. The request of \<^verbatim>\<open>createSession\<close> is always built.\<close>

lemma plain_serializable:
  "plain v \<Longrightarrow> \<exists>r. SerializeJSONProperty P v = Inr r"
  "plain_elements vs \<Longrightarrow> \<exists>ss. SerializeJSONArray P vs = Inr ss"
  "plain_properties ps \<Longrightarrow> \<exists>ss. SerializeJSONObject P ps = Inr ss"
  by (induction P v and P vs and P ps
      rule: SerializeJSONProperty_SerializeJSONArray_SerializeJSONObject.induct) auto

lemma only_BigInt_error:
  "SerializeJSONProperty P v = Inl e \<Longrightarrow>
     e = TypeError ''Do not know how to serialize a BigInt''"
  "SerializeJSONArray P vs = Inl e \<Longrightarrow>
     e = TypeError ''Do not know how to serialize a BigInt''"
  "SerializeJSONObject P ps = Inl e \<Longrightarrow>
     e = TypeError ''Do not know how to serialize a BigInt''"
  by (induction P v and P vs and P ps
      rule: SerializeJSONProperty_SerializeJSONArray_SerializeJSONObject.induct)
     (auto split: sum.splits)

lemma BigInt_not_serializable:
  "\<not> plain v \<Longrightarrow>
     SerializeJSONProperty P v = Inl (TypeError ''Do not know how to serialize a BigInt'')"
  "\<not> plain_elements vs \<Longrightarrow>
     SerializeJSONArray P vs = Inl (TypeError ''Do not know how to serialize a BigInt'')"
  "\<not> plain_properties ps \<Longrightarrow>
     SerializeJSONObject P ps = Inl (TypeError ''Do not know how to serialize a BigInt'')"
  by (induction P v and P vs and P ps
      rule: SerializeJSONProperty_SerializeJSONArray_SerializeJSONObject.induct)
     (auto split: sum.splits dest: only_BigInt_error)

lemma createSession_request_returns:
  "\<exists>rq. createSession_request P this u = Inr rq"
  by (cases u) (simp_all add: createSession_request_def JSON_stringify_def)

lemma sendQuery_request_plain:
  "plain q \<Longrightarrow> \<exists>rq. sendQuery_request P this q = Inr rq"
  using plain_serializable(1) [of q P]
  by (auto simp: sendQuery_request_def JSON_stringify_def)

lemma submitFeedback_request_plain:
  "plain f \<Longrightarrow> \<exists>rq. submitFeedback_request P this f = Inr rq"
  using plain_serializable(1) [of f P]
  by (auto simp: submitFeedback_request_def JSON_stringify_def)

lemma plain_a_query: "plain a_query"
  by (simp add: a_query_def ChatQueryRequest_value_def)

lemma plain_a_feedback: "plain a_feedback"
  by (simp add: a_feedback_def FeedbackRequest_value_def)

subsection \<open>Generic failures\<close>

text \<open>
  C1, amended. When the status of the response is not a success status, \<^verbatim>\<open>createSession\<close>,
  \<^verbatim>\<open>sendQuery\<close> (for a status other than 429 and 400) and \<^verbatim>\<open>submitFeedback\<close> (for a
  status other than 409) fail with an \<^verbatim>\<open>Error\<close> whose message is the fixed prefix of
  the method followed by the status text of the response, so the message contains the
  status text. \<^verbatim>\<open>healthCheck\<close> fails with the fixed message
  \<^verbatim>\<open>API health check failed\<close>, whatever the status text is.
\<close>

theorem generic_failure_carries_status_text:
  assumes "\<not> ok response"
  shows "(createSession_request P this u = Inr session_rq \<and> net session_rq = Inr response \<longrightarrow>
            fst (createSession P this net u sent)
              = Inl (Error (''Failed to create session: '' @ statusText response))
          \<and> fails_with_status_text (fst (createSession P this net u sent)) response)
       \<and> (sendQuery_request P this q = Inr query_rq \<and> net query_rq = Inr response
            \<and> status response \<noteq> 429 \<and> status response \<noteq> 400 \<longrightarrow>
            fst (sendQuery P this net q sent)
              = Inl (Error (''Failed to send query: '' @ statusText response))
          \<and> fails_with_status_text (fst (sendQuery P this net q sent)) response)
       \<and> (submitFeedback_request P this f = Inr feedback_rq \<and> net feedback_rq = Inr response
            \<and> status response \<noteq> 409 \<longrightarrow>
            fst (submitFeedback P this net f sent)
              = Inl (Error (''Failed to submit feedback: '' @ statusText response))
          \<and> fails_with_status_text (fst (submitFeedback P this net f sent)) response)
       \<and> (net (healthCheck_request this) = Inr response \<longrightarrow>
            fst (healthCheck this net sent) = Inl (Error ''API health check failed''))"
proof -
  have contains: "fails_with_status_text (Inl (Error (p @ statusText response))) response" for p
    by (simp only: fails_with_status_text_def sum.case message.simps sublist_after_prefix)
  have cs: "fst (createSession P this net u sent)
      = Inl (Error (''Failed to create session: '' @ statusText response))"
    if "createSession_request P this u = Inr session_rq \<and> net session_rq = Inr response"
    using that assms by (simp add: createSession_def fetch_def)
  have sq: "fst (sendQuery P this net q sent)
      = Inl (Error (''Failed to send query: '' @ statusText response))"
    if "sendQuery_request P this q = Inr query_rq \<and> net query_rq = Inr response
          \<and> status response \<noteq> 429 \<and> status response \<noteq> 400"
    using that assms by (simp add: sendQuery_def fetch_def)
  have sf: "fst (submitFeedback P this net f sent)
      = Inl (Error (''Failed to submit feedback: '' @ statusText response))"
    if "submitFeedback_request P this f = Inr feedback_rq \<and> net feedback_rq = Inr response
          \<and> status response \<noteq> 409"
    using that assms by (simp add: submitFeedback_def fetch_def)
  have hc: "fst (healthCheck this net sent) = Inl (Error ''API health check failed'')"
    if "net (healthCheck_request this) = Inr response"
    using that assms by (simp add: healthCheck_def fetch_def)
  show ?thesis
  proof (intro conjI impI)
    assume a: "createSession_request P this u = Inr session_rq \<and> net session_rq = Inr response"
    show "fst (createSession P this net u sent)
      = Inl (Error (''Failed to create session: '' @ statusText response))"
      by (rule cs [OF a])
    show "fails_with_status_text (fst (createSession P this net u sent)) response"
      by (simp only: cs [OF a] contains)
  next
    assume a: "sendQuery_request P this q = Inr query_rq \<and> net query_rq = Inr response
          \<and> status response \<noteq> 429 \<and> status response \<noteq> 400"
    show "fst (sendQuery P this net q sent)
      = Inl (Error (''Failed to send query: '' @ statusText response))"
      by (rule sq [OF a])
    show "fails_with_status_text (fst (sendQuery P this net q sent)) response"
      by (simp only: sq [OF a] contains)
  next
    assume a: "submitFeedback_request P this f = Inr feedback_rq \<and> net feedback_rq = Inr response
          \<and> status response \<noteq> 409"
    show "fst (submitFeedback P this net f sent)
      = Inl (Error (''Failed to submit feedback: '' @ statusText response))"
      by (rule sf [OF a])
    show "fails_with_status_text (fst (submitFeedback P this net f sent)) response"
      by (simp only: sf [OF a] contains)
  next
    assume a: "net (healthCheck_request this) = Inr response"
    show "fst (healthCheck this net sent) = Inl (Error ''API health check failed'')"
      by (rule hc [OF a])
  qed
qed

text \<open>The amended statement at a response with status 500.\<close>

theorem generic_failure_carries_status_text_witness:
  "\<not> ok internal_server_error
   \<and> fst (createSession integer_ops local_client (answer internal_server_error) None [])
       = Inl (Error ''Failed to create session: Internal Server Error'')
   \<and> fails_with_status_text
       (fst (createSession integer_ops local_client (answer internal_server_error) None []))
       internal_server_error
   \<and> fst (sendQuery integer_ops local_client (answer internal_server_error) a_query [])
       = Inl (Error ''Failed to send query: Internal Server Error'')
   \<and> fst (submitFeedback integer_ops local_client (answer internal_server_error) a_feedback [])
       = Inl (Error ''Failed to submit feedback: Internal Server Error'')
   \<and> fst (healthCheck local_client (answer internal_server_error) [])
       = Inl (Error ''API health check failed'')"
proof -
  have nok: "\<not> ok internal_server_error"
    by (simp add: ok_def internal_server_error_def)
  have sub: "sublist ''Internal Server Error'' ''Failed to create session: Internal Server Error''"
    by code_simp
  obtain srq where srq: "createSession_request integer_ops local_client None = Inr srq"
    using createSession_request_returns by blast
  obtain qrq where qrq: "sendQuery_request integer_ops local_client a_query = Inr qrq"
    using sendQuery_request_plain [OF plain_a_query] by blast
  obtain frq where frq: "submitFeedback_request integer_ops local_client a_feedback = Inr frq"
    using submitFeedback_request_plain [OF plain_a_feedback] by blast
  show ?thesis
    using nok sub srq qrq frq
      generic_failure_carries_status_text [OF nok, where net = "answer internal_server_error"
        and P = integer_ops and this = local_client and u = None and q = a_query
        and f = a_feedback and sent = "[]" and session_rq = srq and query_rq = qrq
        and feedback_rq = frq]
    by (simp add: answer_def internal_server_error_def fails_with_status_text_def)
qed

text \<open>C1 as it is stated fails for \<^verbatim>\<open>healthCheck\<close>: on a response with status 500 and
  status text \<^verbatim>\<open>Internal Server Error\<close> the message of the failure does not contain
  the status text.\<close>

theorem healthCheck_status_text_counterexample:
  "answer internal_server_error (healthCheck_request local_client) = Inr internal_server_error
   \<and> \<not> ok internal_server_error
   \<and> fst (healthCheck local_client (answer internal_server_error) [])
       = Inl (Error ''API health check failed'')
   \<and> \<not> fails_with_status_text
       (fst (healthCheck local_client (answer internal_server_error) [])) internal_server_error"
proof -
  have "\<not> sublist ''Internal Server Error'' ''API health check failed''"
    by code_simp
  then show ?thesis
    by (simp add: healthCheck_def fetch_def answer_def ok_def internal_server_error_def
        fails_with_status_text_def)
qed


subsection \<open>\<^verbatim>\<open>sendQuery\<close>: status 429\<close>

text \<open>
  C3. When the response to \<^verbatim>\<open>sendQuery\<close> has status 429, the call fails with the fixed
  message \<^verbatim>\<open>Rate limit exceeded. Please wait a moment and try again.\<close>, whatever the
  body of the response is (the outcome of \<^verbatim>\<open>response.json()\<close> is not constrained): the
  test for 429 comes before the handling of 400 and before the generic failure.
\<close>

theorem sendQuery_429:
  assumes "sendQuery_request P this q = Inr rq"
    and "net rq = Inr response"
    and "status response = 429"
  shows "fst (sendQuery P this net q sent)
           = Inl (Error ''Rate limit exceeded. Please wait a moment and try again.'')"
  using assms by (simp add: sendQuery_def fetch_def ok_def)

text \<open>At a response with status 429 whose body has a \<^verbatim>\<open>detail\<close>.\<close>

theorem sendQuery_429_witness:
  "fst (sendQuery integer_ops local_client (answer rate_limited) a_query [])
     = Inl (Error ''Rate limit exceeded. Please wait a moment and try again.'')"
proof -
  obtain rq where rq: "sendQuery_request integer_ops local_client a_query = Inr rq"
    using sendQuery_request_plain [OF plain_a_query] by blast
  show ?thesis
    using sendQuery_429 [OF rq, where net = "answer rate_limited" and response = rate_limited
        and sent = "[]"]
    by (simp add: answer_def rate_limited_def)
qed

subsection \<open>\<^verbatim>\<open>sendQuery\<close>: status 400\<close>

text \<open>
  C2, amended. When the response to \<^verbatim>\<open>sendQuery\<close> has status 400 and its body is JSON:
  if the body is an object whose \<^verbatim>\<open>detail\<close> is a string that is not empty, the call
  fails with an \<^verbatim>\<open>Error\<close> whose message is that string; if the body is a JSON value
  other than \<^verbatim>\<open>null\<close> and has no property \<^verbatim>\<open>detail\<close>, the call fails with the
  message \<^verbatim>\<open>Invalid request\<close>.
\<close>

theorem sendQuery_400_detail:
  assumes "sendQuery_request P this q = Inr rq"
    and "net rq = Inr response"
    and "status response = 400"
    and "json response = Inr received"
  shows "(own_property received ''detail'' = Some (JString d) \<and> d \<noteq> [] \<longrightarrow>
            fst (sendQuery P this net q sent) = Inl (Error d))
       \<and> (received \<noteq> JNull \<and> received \<noteq> JUndefined
            \<and> own_property received ''detail'' = None \<longrightarrow>
            fst (sendQuery P this net q sent) = Inl (Error ''Invalid request''))"
  using assms
  by (cases received)
     (simp_all add: sendQuery_def fetch_def ok_def logical_or_def throw_new_Error_def)

text \<open>The two examples of the specification: the body \<^verbatim>\<open>{"detail": "bad mode"}\<close>, and
  a body without \<^verbatim>\<open>detail\<close>.\<close>

theorem sendQuery_400_detail_witness:
  "fst (sendQuery integer_ops local_client (answer bad_mode) a_query []) = Inl (Error ''bad mode'')
   \<and> fst (sendQuery integer_ops local_client (answer no_detail) a_query [])
       = Inl (Error ''Invalid request'')"
proof -
  obtain rq where rq: "sendQuery_request integer_ops local_client a_query = Inr rq"
    using sendQuery_request_plain [OF plain_a_query] by blast
  show ?thesis
    using
      sendQuery_400_detail [OF rq, where net = "answer bad_mode" and response = bad_mode
        and sent = "[]" and received = "JObject [(''detail'', JString ''bad mode'')]"
        and d = "''bad mode''"]
      sendQuery_400_detail [OF rq, where net = "answer no_detail" and response = no_detail
        and sent = "[]" and received = "JObject [(''error'', JString ''bad mode'')]"]
    by (simp add: answer_def bad_mode_def no_detail_def)
qed

text \<open>
  C2 as it is stated fails twice. The body \<^verbatim>\<open>{"detail": ""}\<close> contains a \<^verbatim>\<open>detail\<close>,
  and the message is \<^verbatim>\<open>Invalid request\<close>, not the empty \<^verbatim>\<open>detail\<close>. The body
  \<^verbatim>\<open>null\<close> is valid JSON without a \<^verbatim>\<open>detail\<close>, and the call fails with the TypeError
  of reading a property of \<^verbatim>\<open>null\<close>, not with \<^verbatim>\<open>Invalid request\<close>.
\<close>

theorem sendQuery_400_detail_counterexample:
  "status empty_detail = 400
   \<and> json empty_detail = Inr (JObject [(''detail'', JString [])])
   \<and> fst (sendQuery integer_ops local_client (answer empty_detail) a_query [])
       = Inl (Error ''Invalid request'')
   \<and> fst (sendQuery integer_ops local_client (answer empty_detail) a_query []) \<noteq> Inl (Error [])
   \<and> status null_body = 400
   \<and> json null_body = Inr JNull
   \<and> own_property (JNull :: int jsval) ''detail'' = None
   \<and> fst (sendQuery integer_ops local_client (answer null_body) a_query [])
       = Inl (TypeError (''Cannot read properties of null (reading ''
                          @ [CHR 0x27] @ ''detail'' @ [CHR 0x27] @ '')''))
   \<and> fst (sendQuery integer_ops local_client (answer null_body) a_query [])
       \<noteq> Inl (Error ''Invalid request'')"
proof -
  obtain rq where rq: "sendQuery_request integer_ops local_client a_query = Inr rq"
    using sendQuery_request_plain [OF plain_a_query] by blast
  show ?thesis
    using rq
    by (simp add: sendQuery_def fetch_def ok_def logical_or_def throw_new_Error_def answer_def
        empty_detail_def null_body_def)
qed

text \<open>
  C8. When the response to \<^verbatim>\<open>sendQuery\<close> has status 400 and its JSON body has a
  \<^verbatim>\<open>detail\<close> that is falsy (the empty string, a zero, \<^verbatim>\<open>null\<close>, \<^verbatim>\<open>false\<close>), the
  call fails with the message \<^verbatim>\<open>Invalid request\<close>: the fallback of \<^verbatim>\<open>||\<close> applies to
  every falsy \<^verbatim>\<open>detail\<close>, not only to a missing one.
\<close>

theorem sendQuery_400_falsy_detail:
  assumes "sendQuery_request P this q = Inr rq"
    and "net rq = Inr response"
    and "status response = 400"
    and "json response = Inr received"
    and "own_property received ''detail'' = Some detail"
    and "\<not> ToBoolean P detail"
  shows "fst (sendQuery P this net q sent) = Inl (Error ''Invalid request'')"
proof -
  obtain ps where "received = JObject ps"
    using assms(5) by (cases received) simp_all
  then show ?thesis
    using assms
    by (simp add: sendQuery_def fetch_def ok_def logical_or_def throw_new_Error_def)
qed

text \<open>At the bodies \<^verbatim>\<open>{"detail": ""}\<close>, \<^verbatim>\<open>{"detail": null}\<close> and \<^verbatim>\<open>{"detail": 0}\<close>.\<close>

theorem sendQuery_400_falsy_detail_witness:
  "own_property (JObject [(''detail'', JString [])] :: int jsval) ''detail'' = Some (JString [])
   \<and> \<not> ToBoolean integer_ops (JString [])
   \<and> fst (sendQuery integer_ops local_client (answer empty_detail) a_query [])
       = Inl (Error ''Invalid request'')
   \<and> fst (sendQuery integer_ops local_client (answer null_detail) a_query [])
       = Inl (Error ''Invalid request'')
   \<and> fst (sendQuery integer_ops local_client (answer zero_detail) a_query [])
       = Inl (Error ''Invalid request'')"
proof -
  obtain rq where rq: "sendQuery_request integer_ops local_client a_query = Inr rq"
    using sendQuery_request_plain [OF plain_a_query] by blast
  show ?thesis
    using
      sendQuery_400_falsy_detail [OF rq, where net = "answer empty_detail"
        and response = empty_detail and sent = "[]"
        and received = "JObject [(''detail'', JString [])]" and detail = "JString []"]
      sendQuery_400_falsy_detail [OF rq, where net = "answer null_detail"
        and response = null_detail and sent = "[]"
        and received = "JObject [(''detail'', JNull)]" and detail = JNull]
      sendQuery_400_falsy_detail [OF rq, where net = "answer zero_detail"
        and response = zero_detail and sent = "[]"
        and received = "JObject [(''detail'', JNumber 0)]" and detail = "JNumber 0"]
    by (simp add: answer_def empty_detail_def null_detail_def zero_detail_def integer_ops_def
        integer_nonzero_def)
qed

text \<open>
  C9. When the response to \<^verbatim>\<open>sendQuery\<close> has status 400 and its body is not valid JSON,
  so that \<^verbatim>\<open>response.json()\<close> fails, the call fails with that very exception: neither
  \<^verbatim>\<open>Invalid request\<close> nor any other message of the mapping replaces it.
\<close>

theorem sendQuery_400_unparsable_body:
  assumes "sendQuery_request P this q = Inr rq"
    and "net rq = Inr response"
    and "status response = 400"
    and "json response = Inl parse_error"
  shows "fst (sendQuery P this net q sent) = Inl parse_error"
  using assms by (simp add: sendQuery_def fetch_def ok_def)

text \<open>At a response with status 400 whose body is an HTML page.\<close>

theorem sendQuery_400_unparsable_body_witness:
  "fst (sendQuery integer_ops local_client (answer not_json) a_query [])
     = Inl (SyntaxError ''Unexpected token < in JSON at position 0'')
   \<and> fst (sendQuery integer_ops local_client (answer not_json) a_query [])
     \<noteq> Inl (Error ''Invalid request'')"
proof -
  obtain rq where rq: "sendQuery_request integer_ops local_client a_query = Inr rq"
    using sendQuery_request_plain [OF plain_a_query] by blast
  show ?thesis
    using sendQuery_400_unparsable_body [OF rq, where net = "answer not_json"
        and response = not_json and sent = "[]"
        and parse_error = "SyntaxError ''Unexpected token < in JSON at position 0''"]
    by (simp add: answer_def not_json_def)
qed

subsection \<open>\<^verbatim>\<open>sendQuery\<close>: success\<close>

text \<open>
  C4. When the response to \<^verbatim>\<open>sendQuery\<close> has a success status (200 among them) and its
  body parses as JSON to a value whose \<^verbatim>\<open>source_chunks\<close> is an array, the call returns
  a value whose \<^verbatim>\<open>source_chunks\<close> is the same array: the same elements in the same
  order. The client returns what \<^verbatim>\<open>response.json()\<close> gives and does not touch it.
\<close>

theorem sendQuery_source_chunks:
  assumes "sendQuery_request P this q = Inr rq"
    and "net rq = Inr response"
    and "ok response"
    and "json response = Inr received"
    and "source_chunks received = Some chunks"
  shows "\<exists>returned. fst (sendQuery P this net q sent) = Inr returned
           \<and> source_chunks returned = Some chunks"
  using assms by (simp add: sendQuery_def fetch_def)

text \<open>At a response with status 200 and two chunks.\<close>

theorem sendQuery_source_chunks_witness:
  "status chat_answer = 200
   \<and> ok chat_answer
   \<and> source_chunks chat_body
       = Some [SourceChunk_value first_chunk, SourceChunk_value second_chunk]
   \<and> fst (sendQuery integer_ops local_client (answer chat_answer) a_query []) = Inr chat_body
   \<and> (\<exists>returned. fst (sendQuery integer_ops local_client (answer chat_answer) a_query [])
          = Inr returned
        \<and> source_chunks returned
          = Some [SourceChunk_value first_chunk, SourceChunk_value second_chunk])"
proof -
  obtain rq where rq: "sendQuery_request integer_ops local_client a_query = Inr rq"
    using sendQuery_request_plain [OF plain_a_query] by blast
  have o: "ok chat_answer"
    by (simp add: ok_def chat_answer_def)
  have c: "source_chunks chat_body
      = Some [SourceChunk_value first_chunk, SourceChunk_value second_chunk]"
    by (simp add: source_chunks_def chat_body_def)
  have r: "fst (sendQuery integer_ops local_client (answer chat_answer) a_query [])
      = Inr chat_body"
    using o rq by (simp add: sendQuery_def fetch_def answer_def chat_answer_def)
  show ?thesis
    using o c r sendQuery_source_chunks [OF rq, where net = "answer chat_answer"
        and response = chat_answer and sent = "[]" and received = chat_body, OF _ o _ c]
    by (simp add: answer_def chat_answer_def)
qed

subsection \<open>\<^verbatim>\<open>submitFeedback\<close>\<close>

text \<open>
  C5. When the response to \<^verbatim>\<open>submitFeedback\<close> has status 409, the call fails with the
  fixed message \<^verbatim>\<open>Feedback already submitted for this response\<close>, whatever the body
  is; when the response has a success status, the call returns no value.
\<close>

theorem submitFeedback_409_and_success:
  assumes "submitFeedback_request P this f = Inr rq"
    and "net rq = Inr response"
  shows "(status response = 409 \<longrightarrow>
            fst (submitFeedback P this net f sent)
              = Inl (Error ''Feedback already submitted for this response''))
       \<and> (ok response \<longrightarrow> fst (submitFeedback P this net f sent) = Inr ())"
  using assms by (simp add: submitFeedback_def fetch_def ok_def)

text \<open>At a response with status 409 and at one with status 200.\<close>

theorem submitFeedback_409_and_success_witness:
  "fst (submitFeedback integer_ops local_client (answer duplicate_feedback) a_feedback [])
     = Inl (Error ''Feedback already submitted for this response'')
   \<and> fst (submitFeedback integer_ops local_client (answer feedback_accepted) a_feedback [])
     = Inr ()"
proof -
  obtain rq where rq: "submitFeedback_request integer_ops local_client a_feedback = Inr rq"
    using submitFeedback_request_plain [OF plain_a_feedback] by blast
  show ?thesis
    using
      submitFeedback_409_and_success [OF rq, where net = "answer duplicate_feedback"
        and response = duplicate_feedback and sent = "[]"]
      submitFeedback_409_and_success [OF rq, where net = "answer feedback_accepted"
        and response = feedback_accepted and sent = "[]"]
    by (simp add: answer_def duplicate_feedback_def feedback_accepted_def ok_def)
qed

subsection \<open>\<^verbatim>\<open>healthCheck\<close>\<close>

text \<open>
  C6. When the response to \<^verbatim>\<open>healthCheck\<close> has status 200 and its body parses as JSON,
  the call returns the parsed body unchanged; for the body
  \<^verbatim>\<open>{"status":"ok","version":"1.2.3"}\<close> it returns exactly that object.
\<close>

theorem healthCheck_returns_body:
  assumes "net (healthCheck_request this) = Inr response"
    and "status response = 200"
    and "json response = Inr received"
  shows "fst (healthCheck this net sent) = Inr received"
  using assms by (simp add: healthCheck_def fetch_def ok_def)

text \<open>At the body of the claim.\<close>

theorem healthCheck_returns_body_witness:
  "fst (healthCheck local_client (answer health_answer) [])
     = Inr (JObject [(''status'', JString ''ok''), (''version'', JString ''1.2.3'')])"
  using healthCheck_returns_body [where net = "answer health_answer"
      and response = health_answer and this = local_client and sent = "[]"
      and received = health_body]
  by (simp add: answer_def health_answer_def health_body_def)

subsection \<open>The requests of a call\<close>

text \<open>
  C7, amended. \<^verbatim>\<open>createSession\<close> and \<^verbatim>\<open>healthCheck\<close> always call \<^verbatim>\<open>fetch\<close> exactly
  once. \<^verbatim>\<open>sendQuery\<close> and \<^verbatim>\<open>submitFeedback\<close> call \<^verbatim>\<open>fetch\<close> exactly once when
  \<^verbatim>\<open>JSON.stringify\<close> serializes the request, whatever the network then does (a success,
  an error status or a transport failure): after the call, the requests issued are those
  issued before and the one request of the method, and nothing is retried. When
  \<^verbatim>\<open>JSON.stringify\<close> throws on the request, the call fails with that exception and no
  request is issued.
\<close>

theorem requests_per_call:
  "(\<exists>rq. createSession_request P this u = Inr rq
        \<and> snd (createSession P this net u sent) = sent @ [rq])
   \<and> snd (healthCheck this net sent) = sent @ [healthCheck_request this]
   \<and> (case sendQuery_request P this q of
         Inr rq \<Rightarrow> snd (sendQuery P this net q sent) = sent @ [rq]
       | Inl e \<Rightarrow> sendQuery P this net q sent = (Inl e, sent))
   \<and> (case submitFeedback_request P this f of
         Inr rq \<Rightarrow> snd (submitFeedback P this net f sent) = sent @ [rq]
       | Inl e \<Rightarrow> submitFeedback P this net f sent = (Inl e, sent))"
proof -
  obtain rq where rq: "createSession_request P this u = Inr rq"
    using createSession_request_returns by blast
  have "snd (createSession P this net u sent) = sent @ [rq]"
    using rq by (simp add: createSession_def fetch_def split: sum.splits)
  with rq have cs: "\<exists>rq. createSession_request P this u = Inr rq
        \<and> snd (createSession P this net u sent) = sent @ [rq]"
    by blast
  have hc: "snd (healthCheck this net sent) = sent @ [healthCheck_request this]"
    by (simp add: healthCheck_def fetch_def split: sum.splits)
  have sq: "(case sendQuery_request P this q of
         Inr rq \<Rightarrow> snd (sendQuery P this net q sent) = sent @ [rq]
       | Inl e \<Rightarrow> sendQuery P this net q sent = (Inl e, sent))"
    by (simp add: sendQuery_def fetch_def split: sum.splits)
  have sf: "(case submitFeedback_request P this f of
         Inr rq \<Rightarrow> snd (submitFeedback P this net f sent) = sent @ [rq]
       | Inl e \<Rightarrow> submitFeedback P this net f sent = (Inl e, sent))"
    by (simp add: submitFeedback_def fetch_def split: sum.splits)
  show ?thesis
    using cs hc sq sf by blast
qed

text \<open>On a network that cannot be reached, at responses with the statuses 200, 500 and
  409, and at a request with a BigInt.\<close>

theorem requests_per_call_witness:
  "length (snd (createSession integer_ops local_client
                  (unreachable (TypeError ''Failed to fetch'')) None [])) = 1
   \<and> length (snd (healthCheck local_client (answer health_answer) [])) = 1
   \<and> length (snd (sendQuery integer_ops local_client
                    (answer internal_server_error) a_query [])) = 1
   \<and> length (snd (submitFeedback integer_ops local_client
                    (answer duplicate_feedback) a_feedback [])) = 1
   \<and> sendQuery integer_ops local_client (answer chat_answer) a_query_with_BigInt []
       = (Inl (TypeError ''Do not know how to serialize a BigInt''), [])"
proof -
  obtain qrq where qrq: "sendQuery_request integer_ops local_client a_query = Inr qrq"
    using sendQuery_request_plain [OF plain_a_query] by blast
  obtain frq where frq: "submitFeedback_request integer_ops local_client a_feedback = Inr frq"
    using submitFeedback_request_plain [OF plain_a_feedback] by blast
  have big: "sendQuery_request integer_ops local_client a_query_with_BigInt
      = Inl (TypeError ''Do not know how to serialize a BigInt'')"
    by (simp add: sendQuery_request_def JSON_stringify_def a_query_with_BigInt_def)
  show ?thesis
    using
      requests_per_call [where net = "unreachable (TypeError ''Failed to fetch'')"
        and P = integer_ops and this = local_client and u = None and sent = "[]"
        and q = a_query and f = a_feedback]
      requests_per_call [where net = "answer internal_server_error"
        and P = integer_ops and this = local_client and u = None and sent = "[]"
        and q = a_query and f = a_feedback]
      requests_per_call [where net = "answer duplicate_feedback"
        and P = integer_ops and this = local_client and u = None and sent = "[]"
        and q = a_query and f = a_feedback]
      requests_per_call [where net = "answer health_answer"
        and P = integer_ops and this = local_client and u = None and sent = "[]"
        and q = a_query and f = a_feedback]
      requests_per_call [where net = "answer chat_answer"
        and P = integer_ops and this = local_client and u = None and sent = "[]"
        and q = a_query_with_BigInt and f = a_feedback]
    by (auto simp: qrq frq big)
qed

text \<open>
  C7 as it is stated fails: the argument of \<^verbatim>\<open>fetch\<close> is evaluated first (lines 80 and
  106), and on a request with a property whose value is a BigInt \<^verbatim>\<open>JSON.stringify\<close>
  throws, so \<^verbatim>\<open>sendQuery\<close> and \<^verbatim>\<open>submitFeedback\<close> fail with the TypeError and issue
  no request at all.
\<close>

theorem no_request_counterexample:
  "sendQuery integer_ops local_client (answer chat_answer) a_query_with_BigInt []
     = (Inl (TypeError ''Do not know how to serialize a BigInt''), [])
   \<and> length (snd (sendQuery integer_ops local_client (answer chat_answer)
                    a_query_with_BigInt [])) = 0
   \<and> submitFeedback integer_ops local_client (answer feedback_accepted) a_feedback_with_BigInt []
     = (Inl (TypeError ''Do not know how to serialize a BigInt''), [])
   \<and> length (snd (submitFeedback integer_ops local_client (answer feedback_accepted)
                    a_feedback_with_BigInt [])) = 0"
  by (simp add: sendQuery_def sendQuery_request_def submitFeedback_def
      submitFeedback_request_def JSON_stringify_def a_query_with_BigInt_def
      a_feedback_with_BigInt_def)

subsection \<open>The body of \<^verbatim>\<open>createSession\<close>\<close>

text \<open>
  C10. When \<^verbatim>\<open>createSession\<close> is called without a user identifier, the body of the
  request it issues is the text \<^verbatim>\<open>{}\<close>: \<^verbatim>\<open>JSON.stringify\<close> leaves out the property
  \<^verbatim>\<open>user_identifier\<close>, whose value is \<^verbatim>\<open>undefined\<close>, and does not write \<^verbatim>\<open>null\<close>.
\<close>

theorem createSession_body_without_user:
  "body (last (snd (createSession P this net None sent))) = Some ''{}''"
  by (simp add: createSession_def createSession_request_def JSON_stringify_def fetch_def
      split: sum.splits)

text \<open>The whole request, for the client of a development build.\<close>

theorem createSession_body_without_user_witness:
  "snd (createSession integer_ops local_client (answer internal_server_error) None [])
     = [\<lparr>url = ''http://localhost:8000/api/session'', http_method = ''POST'',
         headers = [(''Content-Type'', ''application/json'')], body = Some ''{}''\<rparr>]"
  using createSession_body_without_user [where P = integer_ops and this = local_client
      and net = "answer internal_server_error" and sent = "[]"]
  by (simp add: createSession_def createSession_request_def JSON_stringify_def fetch_def
      answer_def local_client_def chatClient_def new_ChatClient_def API_BASE_URL_def
      split: sum.splits)

end
